theory Spec2Isabelle
  imports Main
begin

section \<open>The ECR image pusher (main.py)\<close>

text \<open>
  The program is a Streamlit form over four helper functions: \<open>get_ecr_client\<close>,
  \<open>get_ecr_repositories\<close>, \<open>ecr_login\<close> and \<open>tag_and_push_image\<close>, and a button
  handler that calls the last two in sequence. Everything the helpers do besides
  returning a value is an effect on the screen or on the container engine, so the
  model threads an explicit trace of those effects, in the order they happen.

  A Python \<open>str\<close> is modelled by its UTF-8 encoding, a \<open>string\<close> of 8-bit characters.
  The byte \<open>0x3A\<close> occurs in UTF-8 only as the colon itself, so splitting on \<open>':'\<close> and
  concatenating are the same on code points and on their encoding.
\<close>

subsection \<open>Exceptions\<close>

text \<open>
  The exceptions the code names in its handlers, and the ones the library calls it
  makes can raise. Every constructor is a subclass of Python's \<open>Exception\<close>, so a
  handler \<open>except Exception\<close> catches all of them. \<open>CalledProcessError\<close> carries the
  command, the exit code and the captured standard error, as the Python object does;
  \<open>BinasciiError\<close> is \<open>binascii.Error\<close>. Where an exception carries a message, the
  text is that of CPython 3.12.
\<close>

datatype exn =
    NoCredentialsError
  | ClientError string
  | CalledProcessError "string list" int string
  | KeyError string
  | IndexError
  | ValueError string
  | BinasciiError
  | UnicodeDecodeError
  | OSError string
  | OtherException string

subsection \<open>Effects\<close>

text \<open>
  One event per call that is visible outside the process: the Streamlit calls and the
  two ways the code starts a subprocess. \<open>StErrorF pre e post\<close> is
  \<open>st.error(f"pre{e}post")\<close>: the text of the exception is left as the exception
  itself. \<open>LogCode\<close> is \<open>log_container.code(logs, language='bash')\<close>.
\<close>

datatype event =
    StInfo string
  | StSuccess string
  | StWarning string
  | StError string
  | StErrorF string exn string
  | StCode string
  | StSpinner string
  | StEmpty
  | LogCode string
  | SubprocessRun "string list"
  | SubprocessPopen "string list"

type_synonym world = "event list"

subsection \<open>Library functions the code calls\<close>

text \<open>
  \<open>base64.b64decode(token)\<close> on a \<open>str\<close>: the string must be ASCII
  (\<open>ValueError\<close> otherwise); then \<open>binascii.a2b_base64\<close> in its default, non-strict
  mode: characters outside the alphabet are skipped, a complete pad sequence ends the
  input, and an unfinished quad at the end is \<open>binascii.Error\<close>.
\<close>

definition b64_value :: "char \<Rightarrow> nat option" where
  "b64_value c =
     (let n = (of_char c :: nat) in
      if 65 \<le> n \<and> n \<le> 90 then Some (n - 65)
      else if 97 \<le> n \<and> n \<le> 122 then Some (n - 71)
      else if 48 \<le> n \<and> n \<le> 57 then Some (n + 4)
      else if n = 43 then Some 62
      else if n = 47 then Some 63
      else None)"

fun a2b_base64 :: "nat \<Rightarrow> nat \<Rightarrow> nat \<Rightarrow> string \<Rightarrow> string \<Rightarrow> exn + string" where
  "a2b_base64 quad_pos leftchar pads bin_data [] =
     (if quad_pos \<noteq> 0 then Inl BinasciiError else Inr bin_data)"
| "a2b_base64 quad_pos leftchar pads bin_data (c # cs) =
     (if c = CHR ''='' then
        (if 2 \<le> quad_pos then
           (if 4 \<le> quad_pos + (pads + 1) then Inr bin_data
            else a2b_base64 quad_pos leftchar (pads + 1) bin_data cs)
         else a2b_base64 quad_pos leftchar pads bin_data cs)
      else
        (case b64_value c of
           None \<Rightarrow> a2b_base64 quad_pos leftchar pads bin_data cs
         | Some this_ch \<Rightarrow>
             (if quad_pos = 0 then a2b_base64 1 this_ch 0 bin_data cs
              else if quad_pos = 1 then
                a2b_base64 2 (this_ch mod 16) 0
                  (bin_data @ [char_of (leftchar * 4 + this_ch div 16)]) cs
              else if quad_pos = 2 then
                a2b_base64 3 (this_ch mod 4) 0
                  (bin_data @ [char_of (leftchar * 16 + this_ch div 4)]) cs
              else
                a2b_base64 0 0 0
                  (bin_data @ [char_of (leftchar * 64 + this_ch)]) cs)))"

definition is_ascii :: "string \<Rightarrow> bool" where
  "is_ascii s = list_all (\<lambda>c. (of_char c :: nat) < 128) s"

definition b64decode :: "string \<Rightarrow> exn + string" where
  "b64decode s =
     (if is_ascii s then a2b_base64 0 0 0 [] s
      else Inl (ValueError ''string argument should contain only ASCII characters''))"

text \<open>
  \<open>bytes.decode('utf-8')\<close>: the strict decoder accepts exactly the well-formed
  sequences (no overlong forms, no surrogates, nothing above \<open>U+10FFFF\<close>). The
  decoded \<open>str\<close> is represented by the same bytes.
\<close>

definition cont_byte :: "char \<Rightarrow> bool" where
  "cont_byte c = (128 \<le> (of_char c :: nat) \<and> (of_char c :: nat) \<le> 191)"

definition byte_in :: "nat \<Rightarrow> nat \<Rightarrow> char \<Rightarrow> bool" where
  "byte_in lo hi c = (lo \<le> (of_char c :: nat) \<and> (of_char c :: nat) \<le> hi)"

function utf8_valid :: "string \<Rightarrow> bool" where
  "utf8_valid [] = True"
| "utf8_valid (c # cs) =
     (if byte_in 0 127 c then utf8_valid cs
      else if byte_in 194 223 c then
        (case cs of c1 # r \<Rightarrow> cont_byte c1 \<and> utf8_valid r | _ \<Rightarrow> False)
      else if byte_in 224 239 c then
        (case cs of
           c1 # c2 # r \<Rightarrow>
             (if of_char c = (224 :: nat) then byte_in 160 191 c1
              else if of_char c = (237 :: nat) then byte_in 128 159 c1
              else cont_byte c1)
             \<and> cont_byte c2 \<and> utf8_valid r
         | _ \<Rightarrow> False)
      else if byte_in 240 244 c then
        (case cs of
           c1 # c2 # c3 # r \<Rightarrow>
             (if of_char c = (240 :: nat) then byte_in 144 191 c1
              else if of_char c = (244 :: nat) then byte_in 128 143 c1
              else cont_byte c1)
             \<and> cont_byte c2 \<and> cont_byte c3 \<and> utf8_valid r
         | _ \<Rightarrow> False)
      else False)"
  by pat_completeness auto
termination
  by (relation "measure length") auto

definition decode_utf8 :: "string \<Rightarrow> exn + string" where
  "decode_utf8 b = (if utf8_valid b then Inr b else Inl UnicodeDecodeError)"

text \<open>
  \<open>s.split(sep)\<close> with a one-character separator: every occurrence of the separator
  ends a piece, so the result has one piece more than there are separators.
\<close>

fun split_acc :: "char \<Rightarrow> string \<Rightarrow> string \<Rightarrow> string list" where
  "split_acc sep cur [] = [cur]"
| "split_acc sep cur (c # cs) =
     (if c = sep then cur # split_acc sep [] cs else split_acc sep (cur @ [c]) cs)"

definition split :: "string \<Rightarrow> char \<Rightarrow> string list" where
  "split s sep = split_acc sep [] s"

text \<open>
  \<open>a, b = xs\<close>: unpacking into two names needs exactly two items.
\<close>

fun unpack2 :: "string list \<Rightarrow> exn + string \<times> string" where
  "unpack2 [a, b] = Inr (a, b)"
| "unpack2 [] = Inl (ValueError ''not enough values to unpack (expected 2, got 0)'')"
| "unpack2 [a] = Inl (ValueError ''not enough values to unpack (expected 2, got 1)'')"
| "unpack2 (a # b # c # r) = Inl (ValueError ''too many values to unpack (expected 2)'')"

text \<open>
  \<open>s.strip()\<close>: the code points Python counts as whitespace, each by its UTF-8
  encoding, are removed from both ends.
\<close>

definition py_whitespace :: "string list" where
  "py_whitespace =
     [[CHR 0x09], [CHR 0x0A], [CHR 0x0B], [CHR 0x0C], [CHR 0x0D], [CHR 0x1C], [CHR 0x1D],
      [CHR 0x1E], [CHR 0x1F], [CHR 0x20], [CHR 0xC2, CHR 0x85], [CHR 0xC2, CHR 0xA0],
      [CHR 0xE1, CHR 0x9A, CHR 0x80], [CHR 0xE2, CHR 0x80, CHR 0x80],
      [CHR 0xE2, CHR 0x80, CHR 0x81], [CHR 0xE2, CHR 0x80, CHR 0x82],
      [CHR 0xE2, CHR 0x80, CHR 0x83], [CHR 0xE2, CHR 0x80, CHR 0x84],
      [CHR 0xE2, CHR 0x80, CHR 0x85], [CHR 0xE2, CHR 0x80, CHR 0x86],
      [CHR 0xE2, CHR 0x80, CHR 0x87], [CHR 0xE2, CHR 0x80, CHR 0x88],
      [CHR 0xE2, CHR 0x80, CHR 0x89], [CHR 0xE2, CHR 0x80, CHR 0x8A],
      [CHR 0xE2, CHR 0x80, CHR 0xA8], [CHR 0xE2, CHR 0x80, CHR 0xA9],
      [CHR 0xE2, CHR 0x80, CHR 0xAF], [CHR 0xE2, CHR 0x81, CHR 0x9F],
      [CHR 0xE3, CHR 0x80, CHR 0x80]]"

definition starts_with :: "string \<Rightarrow> string \<Rightarrow> bool" where
  "starts_with s w = (take (length w) s = w)"

definition ends_with :: "string \<Rightarrow> string \<Rightarrow> bool" where
  "ends_with s w = (length w \<le> length s \<and> drop (length s - length w) s = w)"

lemma py_whitespace_nonempty: "w \<in> set py_whitespace \<Longrightarrow> 0 < length w"
  by (auto simp: py_whitespace_def)

function lstrip :: "string \<Rightarrow> string" where
  "lstrip s =
     (case List.find (starts_with s) py_whitespace of
        Some w \<Rightarrow> lstrip (drop (length w) s)
      | None \<Rightarrow> s)"
  by pat_completeness auto
termination lstrip
proof (relation "measure length")
  show "wf (measure length)" by simp
next
  fix s :: string and w
  assume f: "List.find (starts_with s) py_whitespace = Some w"
  then have "w \<in> set py_whitespace" and sw: "starts_with s w"
    by (auto simp: find_Some_iff)
  then have "0 < length w" using py_whitespace_nonempty by blast
  moreover from sw have "length w \<le> length s"
    by (metis starts_with_def length_take min.cobounded1 min.commute)
  ultimately show "(drop (length w) s, s) \<in> measure length" by (cases w) auto
qed

function rstrip :: "string \<Rightarrow> string" where
  "rstrip s =
     (case List.find (ends_with s) py_whitespace of
        Some w \<Rightarrow> rstrip (take (length s - length w) s)
      | None \<Rightarrow> s)"
  by pat_completeness auto
termination rstrip
proof (relation "measure length")
  show "wf (measure length)" by simp
next
  fix s :: string and w
  assume f: "List.find (ends_with s) py_whitespace = Some w"
  then have "w \<in> set py_whitespace" and sw: "ends_with s w"
    by (auto simp: find_Some_iff)
  then have "0 < length w" using py_whitespace_nonempty by blast
  moreover from sw have "length w \<le> length s"
    by (simp add: ends_with_def)
  ultimately show "(take (length s - length w) s, s) \<in> measure length" by (cases w) auto
qed

declare lstrip.simps [simp del] rstrip.simps [simp del]

definition strip :: "string \<Rightarrow> string" where
  "strip s = rstrip (lstrip s)"

subsection \<open>The cloud registry API and the container engine\<close>

text \<open>
  The responses of the registry API are dictionaries parsed by the SDK against the
  service's declared shapes: a value has its declared type, a key may be missing. A
  missing key is \<open>None\<close> here and \<open>KeyError\<close> where the code subscripts it.
\<close>

record repo =
  repositoryName :: "string option"

record page =
  page_repositories :: "repo list option"

record authorization_data =
  authorizationToken :: "string option"

record authorization_response =
  authorizationData :: "authorization_data list option"

text \<open>
  What the client answers in one run: \<open>paginate\<close> is the pages that
  \<open>get_paginator('describe_repositories').paginate()\<close> yields, and the exception
  that ends the iteration early, if any; \<open>get_authorization_token\<close> is the response
  of that call or the exception it raises.
\<close>

record ecr_client =
  paginate :: "page list \<times> exn option"
  get_authorization_token :: "exn + authorization_response"

text \<open>
  \<open>subprocess.run(..., capture_output=True, text=True)\<close> gives a completed process
  with its exit code and captured text, or raises when the program cannot be started.
  \<open>subprocess.Popen(..., stdout=PIPE, stderr=STDOUT, text=True, encoding='utf-8')\<close>
  gives a process whose \<open>stdout\<close> is a text stream over the combined output: the
  bytes are decoded as strict UTF-8 and every line ending is turned into a newline.
  A \<open>readline()\<close> that meets bytes which do not decode raises
  \<open>UnicodeDecodeError\<close>; how many lines the calls before it returned depends on how
  the output arrived. So \<open>p_stdout\<close> is the text, after decoding and newline
  translation, that the calls which return deliver, and \<open>p_read_error\<close> is the
  exception that the call after them raises, \<open>None\<close> when the stream ends instead.
  \<open>p_returncode\<close> is the exit code that \<open>wait()\<close> sets; the process is taken to
  exit. The engine answers by command.
\<close>

record completed_process =
  returncode :: int
  stdout :: string
  stderr :: string

record popen_process =
  p_stdout :: string
  p_read_error :: "exn option"
  p_returncode :: int

record engine =
  run_result :: "string list \<Rightarrow> exn + completed_process"
  popen_result :: "string list \<Rightarrow> exn + popen_process"

text \<open>
  \<open>subprocess.run(command, capture_output=True, text=True, check=True)\<close>: with
  \<open>check=True\<close> a non-zero exit code raises \<open>CalledProcessError\<close>.
\<close>

definition subprocess_run_check ::
  "engine \<Rightarrow> string list \<Rightarrow> world \<Rightarrow> (exn + completed_process) \<times> world" where
  "subprocess_run_check eng command w =
     (case run_result eng command of
        Inl e \<Rightarrow> (Inl e, w @ [SubprocessRun command])
      | Inr result \<Rightarrow>
          (if returncode result \<noteq> 0
           then (Inl (CalledProcessError command (returncode result) (stderr result)),
                 w @ [SubprocessRun command])
           else (Inr result, w @ [SubprocessRun command])))"

text \<open>
  \<open>readline\<close> on the text a stream still holds: the text up to and including the
  next newline, or what is left when there is none, and the text after it.
  \<open>stdout_readline\<close> is \<open>process.stdout.readline()\<close>: while text is left it returns
  the next line; after that it raises the stream's exception, if it has one, and
  returns the empty string at the end of the stream otherwise.
\<close>

fun readline :: "string \<Rightarrow> string \<times> string" where
  "readline [] = ([], [])"
| "readline (c # cs) =
     (if c = CHR 0x0A then ([c], cs)
      else (case readline cs of (line, rest) \<Rightarrow> (c # line, rest)))"

definition stdout_readline :: "string \<Rightarrow> exn option \<Rightarrow> exn + string \<times> string" where
  "stdout_readline stream raised =
     (if stream = [] then (case raised of Some e \<Rightarrow> Inl e | None \<Rightarrow> Inr ([], []))
      else Inr (readline stream))"

subsection \<open>The helper functions\<close>

text \<open>
  Every function takes the trace so far and returns its result with the extended
  trace. The result is \<open>Inr v\<close> when the function returns \<open>v\<close> and \<open>Inl e\<close> when the
  exception \<open>e\<close> leaves it. \<open>boto3_client\<close> is what \<open>boto3.client\<close> answers for a
  service and a region.
\<close>

definition get_ecr_client ::
  "(string \<Rightarrow> string \<Rightarrow> exn + ecr_client) \<Rightarrow> string \<Rightarrow> world
     \<Rightarrow> (exn + ecr_client option) \<times> world" where
  "get_ecr_client boto3_client region_name w =
     (case boto3_client ''ecr'' region_name of
        Inr client \<Rightarrow> (Inr (Some client), w)
      | Inl NoCredentialsError \<Rightarrow>
          (Inr None,
           w @ [StError ''AWS credentials not found. Please configure them using 'aws configure' or environment variables.''])
      | Inl e \<Rightarrow> (Inr None, w @ [StErrorF ''Error creating ECR client: '' e []]))"

text \<open>
  The two nested loops of \<open>get_ecr_repositories\<close>, each with the list
  \<open>repositories\<close> built so far.
\<close>

fun append_repository_names :: "string list \<Rightarrow> repo list \<Rightarrow> exn + string list" where
  "append_repository_names repositories [] = Inr repositories"
| "append_repository_names repositories (repo # rest) =
     (case repositoryName repo of
        None \<Rightarrow> Inl (KeyError ''repositoryName'')
      | Some name \<Rightarrow> append_repository_names (repositories @ [name]) rest)"

fun collect_pages :: "string list \<Rightarrow> page list \<Rightarrow> exn + string list" where
  "collect_pages repositories [] = Inr repositories"
| "collect_pages repositories (page # rest) =
     (case page_repositories page of
        None \<Rightarrow> Inl (KeyError ''repositories'')
      | Some repos \<Rightarrow>
          (case append_repository_names repositories repos of
             Inl e \<Rightarrow> Inl e
           | Inr repositories' \<Rightarrow> collect_pages repositories' rest))"

definition list_repository_names :: "ecr_client \<Rightarrow> exn + string list" where
  "list_repository_names client =
     (case paginate client of
        (pages, raised) \<Rightarrow>
          (case collect_pages [] pages of
             Inl e \<Rightarrow> Inl e
           | Inr repositories \<Rightarrow>
               (case raised of Some e \<Rightarrow> Inl e | None \<Rightarrow> Inr repositories)))"

definition get_ecr_repositories ::
  "ecr_client \<Rightarrow> world \<Rightarrow> (exn + string list option) \<times> world" where
  "get_ecr_repositories client w =
     (case list_repository_names client of
        Inr repositories \<Rightarrow> (Inr (Some repositories), w)
      | Inl (ClientError m) \<Rightarrow>
          (Inr None,
           w @ [StErrorF ''Error fetching ECR repositories: '' (ClientError m)
                  ''. Check your credentials and permissions.''])
      | Inl e \<Rightarrow> (Inr None, w @ [StErrorF ''An unexpected error occurred: '' e []]))"

text \<open>
  \<open>ecr_login\<close>, lines 69 to 71: the token of the first entry of the response.
\<close>

definition request_auth_token :: "ecr_client \<Rightarrow> exn + string" where
  "request_auth_token client =
     (case get_authorization_token client of
        Inl e \<Rightarrow> Inl e
      | Inr auth_token_response \<Rightarrow>
          (case authorizationData auth_token_response of
             None \<Rightarrow> Inl (KeyError ''authorizationData'')
           | Some [] \<Rightarrow> Inl IndexError
           | Some (auth_data # _) \<Rightarrow>
               (case authorizationToken auth_data of
                  None \<Rightarrow> Inl (KeyError ''authorizationToken'')
                | Some token \<Rightarrow> Inr token)))"

text \<open>
  Lines 72 and 73: \<open>base64.b64decode(token).decode('utf-8')\<close>, then
  \<open>username, password = decoded_token.split(':')\<close>.
\<close>

definition decode_token :: "string \<Rightarrow> exn + string \<times> string" where
  "decode_token token =
     (case b64decode token of
        Inl e \<Rightarrow> Inl e
      | Inr raw \<Rightarrow>
          (case decode_utf8 raw of
             Inl e \<Rightarrow> Inl e
           | Inr decoded_token \<Rightarrow> unpack2 (split decoded_token CHR '':'')))"

text \<open>
  Lines 69 to 82: from the token response to the login command.
\<close>

definition ecr_login_command :: "ecr_client \<Rightarrow> string \<Rightarrow> string \<Rightarrow> exn + string list" where
  "ecr_login_command client aws_account_id region =
     (case request_auth_token client of
        Inl e \<Rightarrow> Inl e
      | Inr token \<Rightarrow>
          (case decode_token token of
             Inl e \<Rightarrow> Inl e
           | Inr (username, password) \<Rightarrow>
               Inr [''docker'', ''login'', ''--username'', username, ''--password'', password,
                    aws_account_id @ ''.dkr.ecr.'' @ region @ ''.amazonaws.com'']))"

text \<open>
  The two handlers of \<open>ecr_login\<close>, in the order the code lists them.
\<close>

fun ecr_login_except :: "exn \<Rightarrow> world \<Rightarrow> (exn + bool) \<times> world" where
  "ecr_login_except (CalledProcessError cmd rc err) w =
     (Inr False, w @ [StError ''Docker login failed.'', StCode err])"
| "ecr_login_except e w =
     (Inr False, w @ [StErrorF ''An error occurred during ECR login: '' e []])"

definition ecr_login ::
  "ecr_client \<Rightarrow> string \<Rightarrow> string \<Rightarrow> engine \<Rightarrow> world \<Rightarrow> (exn + bool) \<times> world" where
  "ecr_login client aws_account_id region eng w =
     (case ecr_login_command client aws_account_id region of
        Inl e \<Rightarrow> ecr_login_except e (w @ [StInfo ''Authenticating Docker with ECR...''])
      | Inr command \<Rightarrow>
          (case subprocess_run_check eng command
                  (w @ [StInfo ''Authenticating Docker with ECR...'']) of
             (Inl e, w') \<Rightarrow> ecr_login_except e w'
           | (Inr result, w') \<Rightarrow>
               (if returncode result = 0
                then (Inr True, w' @ [StSuccess ''Docker login successful!''])
                else (Inr False, w' @ [StError ''Docker login failed.'', StCode (stderr result)]))))"

text \<open>
  The loop \<open>for line in iter(process.stdout.readline, '')\<close> of \<open>tag_and_push_image\<close>:
  it reads until \<open>readline()\<close> returns the empty string, appends each line to \<open>logs\<close>
  and shows the log so far. An exception raised by \<open>readline()\<close> ends the loop and
  is passed on, with what has been shown until then.
\<close>

lemma readline_length: "readline s = (line, rest) \<Longrightarrow> length line + length rest = length s"
  by (induction s arbitrary: line rest) (auto split: if_splits prod.splits)

lemma readline_shorter: "readline s = (line, rest) \<Longrightarrow> line \<noteq> [] \<Longrightarrow> length rest < length s"
  using readline_length [of s line rest] by (cases line) auto

lemma stdout_readline_shorter:
  "stdout_readline stream raised = Inr (line, rest) \<Longrightarrow> line \<noteq> [] \<Longrightarrow> length rest < length stream"
  by (auto simp: stdout_readline_def readline_shorter split: if_splits option.splits)

function read_log_lines ::
  "string \<Rightarrow> exn option \<Rightarrow> string \<Rightarrow> world \<Rightarrow> (exn + string) \<times> world" where
  "read_log_lines stream raised logs w =
     (case stdout_readline stream raised of
        Inl e \<Rightarrow> (Inl e, w)
      | Inr (line, rest) \<Rightarrow>
          (if line = [] then (Inr logs, w)
           else read_log_lines rest raised (logs @ line) (w @ [LogCode (logs @ line)])))"
  by pat_completeness auto
termination read_log_lines
  apply (relation "measure (\<lambda>(stream, raised, logs, w). length stream)")
   apply simp
  apply (metis (no_types, lifting) stdout_readline_shorter in_measure case_prod_conv)
  done

declare read_log_lines.simps [simp del]

definition apostrophe :: string where
  "apostrophe = [CHR 0x27]"

definition tag_and_push_image ::
  "engine \<Rightarrow> string \<Rightarrow> string \<Rightarrow> string \<Rightarrow> world \<Rightarrow> (exn + bool) \<times> world" where
  "tag_and_push_image eng local_image_tag repository_uri image_tag w =
     (let ecr_image_uri = repository_uri @ '':'' @ image_tag;
          tag_command = [''docker'', ''tag'', local_image_tag, ecr_image_uri];
          push_command = [''docker'', ''push'', ecr_image_uri]
      in
      (case subprocess_run_check eng tag_command
              (w @ [StInfo (''Tagging local image '' @ apostrophe @ local_image_tag @ apostrophe
                            @ '' as '' @ apostrophe @ ecr_image_uri @ apostrophe @ ''...'')]) of
         (Inl (CalledProcessError cmd rc err), w1) \<Rightarrow>
           (Inr False,
            w1 @ [StError ''Failed to tag Docker image. Make sure the local image exists.'',
                  StCode err])
       | (Inl e, w1) \<Rightarrow> (Inl e, w1)
       | (Inr tagged, w1) \<Rightarrow>
           (case popen_result eng push_command of
              Inl e \<Rightarrow>
                (Inl e,
                 w1 @ [StSuccess ''Image tagged successfully.'',
                       StInfo (''Pushing image to ECR repository: '' @ ecr_image_uri),
                       StSpinner ''Pushing Docker image... This may take a while.'',
                       SubprocessPopen push_command])
            | Inr process \<Rightarrow>
                (case read_log_lines (p_stdout process) (p_read_error process) []
                        (w1 @ [StSuccess ''Image tagged successfully.'',
                               StInfo (''Pushing image to ECR repository: '' @ ecr_image_uri),
                               StSpinner ''Pushing Docker image... This may take a while.'',
                               SubprocessPopen push_command,
                               StEmpty]) of
                   (Inl e, w2) \<Rightarrow> (Inl e, w2)
                 | (Inr logs, w2) \<Rightarrow>
                     (if p_returncode process = 0
                      then (Inr True, w2 @ [StSuccess ''Image pushed successfully to ECR!''])
                      else (Inr False, w2 @ [StError ''Failed to push image to ECR.'']))))))"

subsection \<open>The button handler\<close>

text \<open>
  The body of \<open>if st.button("Push to ECR")\<close>. \<open>aws_account_id\<close> and \<open>aws_region\<close> are
  the two text inputs as typed; \<open>all([...])\<close> is true when every string is non-empty.
\<close>

definition repository_uri :: "string \<Rightarrow> string \<Rightarrow> string \<Rightarrow> string" where
  "repository_uri account_id region selected_repo =
     account_id @ ''.dkr.ecr.'' @ region @ ''.amazonaws.com/'' @ selected_repo"

definition push_to_ecr ::
  "ecr_client \<Rightarrow> engine \<Rightarrow> string \<Rightarrow> string \<Rightarrow> string \<Rightarrow> string \<Rightarrow> string \<Rightarrow> world
     \<Rightarrow> (exn + unit) \<times> world" where
  "push_to_ecr client eng aws_account_id aws_region selected_repo local_image new_image_tag w =
     (let account_id = strip aws_account_id;
          region = strip aws_region
      in
      if list_all (\<lambda>s. s \<noteq> []) [selected_repo, local_image, new_image_tag, account_id]
      then
        (case ecr_login client account_id region eng w of
           (Inl e, w1) \<Rightarrow> (Inl e, w1)
         | (Inr login_success, w1) \<Rightarrow>
             (if login_success
              then
                (case tag_and_push_image eng (strip local_image)
                        (repository_uri account_id region selected_repo)
                        (strip new_image_tag) w1 of
                   (Inl e, w2) \<Rightarrow> (Inl e, w2)
                 | (Inr pushed, w2) \<Rightarrow> (Inr (), w2))
              else (Inr (), w1)))
      else (Inr (), w @ [StWarning ''Please fill in all the repository and image details.'']))"

section \<open>Notions used in the properties\<close>

subsection \<open>Reading the trace\<close>

text \<open>
  The commands handed to \<open>subprocess.run\<close> and to \<open>subprocess.Popen\<close>, and the log
  updates shown, each in the order of the trace.
\<close>

fun run_commands :: "world \<Rightarrow> string list list" where
  "run_commands [] = []"
| "run_commands (SubprocessRun command # w) = command # run_commands w"
| "run_commands (ev # w) = run_commands w"

fun popen_commands :: "world \<Rightarrow> string list list" where
  "popen_commands [] = []"
| "popen_commands (SubprocessPopen command # w) = command # popen_commands w"
| "popen_commands (ev # w) = popen_commands w"

fun log_updates :: "world \<Rightarrow> string list" where
  "log_updates [] = []"
| "log_updates (LogCode logs # w) = logs # log_updates w"
| "log_updates (ev # w) = log_updates w"

subsection \<open>The lines of a text\<close>

text \<open>
  The lines of a text, each with its newline, the last one possibly without: the
  text split on line boundaries and nowhere else. This is the specification the
  reading loop is compared with. \<open>shown_logs logs lines\<close> is what the log display
  shows after each line when it starts from \<open>logs\<close>.
\<close>

fun emitted_lines :: "string \<Rightarrow> string list" where
  "emitted_lines [] = []"
| "emitted_lines (c # cs) =
     (if c = CHR 0x0A then [c] # emitted_lines cs
      else (case emitted_lines cs of [] \<Rightarrow> [[c]] | line # lines \<Rightarrow> (c # line) # lines))"

fun shown_logs :: "string \<Rightarrow> string list \<Rightarrow> string list" where
  "shown_logs logs [] = []"
| "shown_logs logs (line # lines) = (logs @ line) # shown_logs (logs @ line) lines"

subsection \<open>The trace of a push\<close>

definition tag_command :: "string \<Rightarrow> string \<Rightarrow> string \<Rightarrow> string list" where
  "tag_command local_image_tag repo_uri image_tag =
     [''docker'', ''tag'', local_image_tag, repo_uri @ '':'' @ image_tag]"

definition push_command :: "string \<Rightarrow> string \<Rightarrow> string list" where
  "push_command repo_uri image_tag = [''docker'', ''push'', repo_uri @ '':'' @ image_tag]"

definition push_trace :: "string \<Rightarrow> string \<Rightarrow> string \<Rightarrow> string \<Rightarrow> world" where
  "push_trace local_image_tag repo_uri image_tag output =
     [StInfo (''Tagging local image '' @ apostrophe @ local_image_tag @ apostrophe
              @ '' as '' @ apostrophe @ (repo_uri @ '':'' @ image_tag) @ apostrophe @ ''...''),
      SubprocessRun (tag_command local_image_tag repo_uri image_tag),
      StSuccess ''Image tagged successfully.'',
      StInfo (''Pushing image to ECR repository: '' @ (repo_uri @ '':'' @ image_tag)),
      StSpinner ''Pushing Docker image... This may take a while.'',
      SubprocessPopen (push_command repo_uri image_tag),
      StEmpty]
     @ map LogCode (shown_logs [] (emitted_lines output))"

subsection \<open>Pages, engines and clients used as examples\<close>

text \<open>
  A page as the API returns it for a list of repository names: the key
  \<open>repositories\<close> holds one entry per name, each with the key \<open>repositoryName\<close>.
\<close>

definition page_of :: "string list \<Rightarrow> page" where
  "page_of names = \<lparr>page_repositories = Some (map (\<lambda>name. \<lparr>repositoryName = Some name\<rparr>) names)\<rparr>"

definition engine_tag_fails :: engine where
  "engine_tag_fails =
     \<lparr>run_result = (\<lambda>command.
        Inr \<lparr>returncode = 1, stdout = [], stderr = ''Error response from daemon: No such image: my-app:latest''\<rparr>),
      popen_result = (\<lambda>command. Inr \<lparr>p_stdout = [], p_read_error = None, p_returncode = 0\<rparr>)\<rparr>"

definition engine_ok :: engine where
  "engine_ok =
     \<lparr>run_result = (\<lambda>command. Inr \<lparr>returncode = 0, stdout = ''ok\<newline>'', stderr = []\<rparr>),
      popen_result = (\<lambda>command.
        Inr \<lparr>p_stdout = ''The push refers to repository\<newline>latest: digest: sha256:0f3a size: 1570\<newline>'',
             p_read_error = None, p_returncode = 0\<rparr>)\<rparr>"

definition engine_push_exits :: "int \<Rightarrow> engine" where
  "engine_push_exits rc =
     \<lparr>run_result = (\<lambda>command. Inr \<lparr>returncode = 0, stdout = [], stderr = []\<rparr>),
      popen_result = (\<lambda>command.
        Inr \<lparr>p_stdout = ''denied: requested access to the resource is denied\<newline>'',
             p_read_error = None, p_returncode = rc\<rparr>)\<rparr>"

definition engine_push_undecodable :: engine where
  "engine_push_undecodable =
     \<lparr>run_result = (\<lambda>command. Inr \<lparr>returncode = 0, stdout = [], stderr = []\<rparr>),
      popen_result = (\<lambda>command.
        Inr \<lparr>p_stdout = ''ok\<newline>'', p_read_error = Some UnicodeDecodeError,
             p_returncode = 1\<rparr>)\<rparr>"

definition engine_login_fails :: engine where
  "engine_login_fails =
     \<lparr>run_result = (\<lambda>command.
        Inr \<lparr>returncode = 1, stdout = [], stderr = ''no basic auth credentials''\<rparr>),
      popen_result = (\<lambda>command. Inr \<lparr>p_stdout = [], p_read_error = None, p_returncode = 0\<rparr>)\<rparr>"

definition engine_no_docker :: engine where
  "engine_no_docker =
     \<lparr>run_result = (\<lambda>command. Inl (OSError ''[Errno 2] No such file or directory: docker'')),
      popen_result = (\<lambda>command. Inl (OSError ''[Errno 2] No such file or directory: docker''))\<rparr>"

definition client_of_tokens :: "string list \<Rightarrow> ecr_client" where
  "client_of_tokens tokens =
     \<lparr>paginate = ([], None),
      get_authorization_token =
        Inr \<lparr>authorizationData =
               Some (map (\<lambda>token. \<lparr>authorizationToken = Some token\<rparr>) tokens)\<rparr>\<rparr>"

section \<open>Properties\<close>

subsection \<open>Commands in a trace\<close>

lemma run_commands_append: "run_commands (w @ w') = run_commands w @ run_commands w'"
  by (induction w rule: run_commands.induct) simp_all

lemma popen_commands_append: "popen_commands (w @ w') = popen_commands w @ popen_commands w'"
  by (induction w rule: popen_commands.induct) simp_all

lemma log_updates_append: "log_updates (w @ w') = log_updates w @ log_updates w'"
  by (induction w rule: log_updates.induct) simp_all

subsection \<open>A failed tag step\<close>

text \<open>
  C2. When the engine's tag subcommand exits with a non-zero code,
  \<open>tag_and_push_image\<close> returns \<open>False\<close>, shows the captured standard error, and
  starts no push process: the trace ends with the error report and holds no
  \<open>Popen\<close> beyond those it held before.
\<close>

theorem tag_failure_never_pushes:
  assumes "run_result eng [''docker'', ''tag'', local_image_tag, repo_uri @ '':'' @ image_tag]
             = Inr result"
    and "returncode result \<noteq> 0"
  shows "tag_and_push_image eng local_image_tag repo_uri image_tag w =
           (Inr False,
            w @ [StInfo (''Tagging local image '' @ apostrophe @ local_image_tag @ apostrophe
                         @ '' as '' @ apostrophe @ (repo_uri @ '':'' @ image_tag)
                         @ apostrophe @ ''...''),
                 SubprocessRun [''docker'', ''tag'', local_image_tag,
                                repo_uri @ '':'' @ image_tag],
                 StError ''Failed to tag Docker image. Make sure the local image exists.'',
                 StCode (stderr result)])
         \<and> popen_commands (snd (tag_and_push_image eng local_image_tag repo_uri image_tag w))
             = popen_commands w"
  using assms
  by (simp add: tag_and_push_image_def subprocess_run_check_def Let_def popen_commands_append)

theorem tag_failure_never_pushes_witness:
  "fst (tag_and_push_image engine_tag_fails ''my-app:latest''
          ''123456789012.dkr.ecr.us-east-1.amazonaws.com/my-app'' ''latest'' []) = Inr False
   \<and> popen_commands (snd (tag_and_push_image engine_tag_fails ''my-app:latest''
          ''123456789012.dkr.ecr.us-east-1.amazonaws.com/my-app'' ''latest'' [])) = []"
  using tag_failure_never_pushes [of engine_tag_fails "''my-app:latest''"
          "''123456789012.dkr.ecr.us-east-1.amazonaws.com/my-app''" "''latest''"
          "\<lparr>returncode = 1, stdout = [], stderr = ''Error response from daemon: No such image: my-app:latest''\<rparr>"
          "[]"]
  by (simp add: engine_tag_fails_def)

subsection \<open>Listing repositories\<close>

lemma append_repository_names_entries:
  "append_repository_names repositories (map (\<lambda>name. \<lparr>repositoryName = Some name\<rparr>) names)
     = Inr (repositories @ names)"
  by (induction names arbitrary: repositories) simp_all

lemma collect_pages_page_of:
  "collect_pages repositories (map page_of nss) = Inr (repositories @ concat nss)"
  by (induction nss arbitrary: repositories)
     (simp_all add: page_of_def append_repository_names_entries)

text \<open>
  C4. When the listing yields the pages for the name lists \<open>nss\<close> and raises
  nothing, \<open>get_ecr_repositories\<close> returns the names of all pages concatenated, page
  after page and within a page in the order given, and shows nothing. With no page
  at all the result is the empty list, not \<open>None\<close>.
\<close>

theorem get_ecr_repositories_all_pages:
  assumes "paginate client = (map page_of nss, None)"
  shows "get_ecr_repositories client w = (Inr (Some (concat nss)), w)"
  using assms
  by (simp add: get_ecr_repositories_def list_repository_names_def collect_pages_page_of)

theorem get_ecr_repositories_all_pages_witness:
  "get_ecr_repositories
     \<lparr>paginate = (map page_of [[''zeta'', ''alpha''], [], [''my-app'']], None),
      get_authorization_token = Inl NoCredentialsError\<rparr> []
     = (Inr (Some [''zeta'', ''alpha'', ''my-app'']), [])
   \<and> get_ecr_repositories
     \<lparr>paginate = (map page_of [], None),
      get_authorization_token = Inl NoCredentialsError\<rparr> []
     = (Inr (Some []), [])"
  using get_ecr_repositories_all_pages
          [of "\<lparr>paginate = (map page_of [[''zeta'', ''alpha''], [], [''my-app'']], None),
                get_authorization_token = Inl NoCredentialsError\<rparr>"
              "[[''zeta'', ''alpha''], [], [''my-app'']]" "[]"]
        get_ecr_repositories_all_pages
          [of "\<lparr>paginate = (map page_of [], None),
                get_authorization_token = Inl NoCredentialsError\<rparr>" "[]" "[]"]
  by simp

subsection \<open>The token request\<close>

lemma ecr_login_except_run_commands:
  "run_commands (snd (ecr_login_except e w)) = run_commands w"
  by (cases e) (simp_all add: run_commands_append)

lemma ecr_login_run_commands:
  "run_commands (snd (ecr_login client aws_account_id region eng w)) =
     run_commands w @
       (case ecr_login_command client aws_account_id region of
          Inl e \<Rightarrow> []
        | Inr command \<Rightarrow> [command])"
  by (auto simp: ecr_login_def subprocess_run_check_def run_commands_append
        ecr_login_except_run_commands
      split: sum.splits prod.splits if_splits)

text \<open>
  C8. When the response of the authorization-token API holds one entry or more and
  the first entry has a token, the token request gives that token, whatever
  follows the first entry. The login command is built from the username and the
  password decoded from that token, and it is the one command that \<open>ecr_login\<close>
  runs; when the token does not decode, \<open>ecr_login\<close> runs nothing. So the login
  behaves as it does on the response cut down to its first entry.
\<close>

theorem request_auth_token_first_entry:
  assumes "get_authorization_token client = Inr response"
    and "authorizationData response = Some (first_entry # others)"
    and "authorizationToken first_entry = Some token"
  shows "request_auth_token client = Inr token
         \<and> ecr_login_command client aws_account_id region =
             (case decode_token token of
                Inl e \<Rightarrow> Inl e
              | Inr (username, password) \<Rightarrow>
                  Inr [''docker'', ''login'', ''--username'', username, ''--password'', password,
                       aws_account_id @ ''.dkr.ecr.'' @ region @ ''.amazonaws.com''])
         \<and> run_commands (snd (ecr_login client aws_account_id region eng w)) =
             run_commands w @
               (case decode_token token of
                  Inl e \<Rightarrow> []
                | Inr (username, password) \<Rightarrow>
                    [[''docker'', ''login'', ''--username'', username, ''--password'', password,
                      aws_account_id @ ''.dkr.ecr.'' @ region @ ''.amazonaws.com'']])
         \<and> ecr_login client aws_account_id region eng w =
             ecr_login
               (client\<lparr>get_authorization_token :=
                  Inr (response\<lparr>authorizationData := Some [first_entry]\<rparr>)\<rparr>)
               aws_account_id region eng w"
proof -
  have t: "request_auth_token client = Inr token"
    using assms by (simp add: request_auth_token_def)
  have c: "ecr_login_command client aws_account_id region =
             (case decode_token token of
                Inl e \<Rightarrow> Inl e
              | Inr (username, password) \<Rightarrow>
                  Inr [''docker'', ''login'', ''--username'', username, ''--password'', password,
                       aws_account_id @ ''.dkr.ecr.'' @ region @ ''.amazonaws.com''])"
    using t by (simp add: ecr_login_command_def)
  have r: "run_commands (snd (ecr_login client aws_account_id region eng w)) =
             run_commands w @
               (case decode_token token of
                  Inl e \<Rightarrow> []
                | Inr (username, password) \<Rightarrow>
                    [[''docker'', ''login'', ''--username'', username, ''--password'', password,
                      aws_account_id @ ''.dkr.ecr.'' @ region @ ''.amazonaws.com'']])"
    unfolding ecr_login_run_commands c by (simp split: sum.splits prod.splits)
  have e: "ecr_login client aws_account_id region eng w =
             ecr_login
               (client\<lparr>get_authorization_token :=
                  Inr (response\<lparr>authorizationData := Some [first_entry]\<rparr>)\<rparr>)
               aws_account_id region eng w"
    using assms by (simp add: request_auth_token_def ecr_login_def ecr_login_command_def)
  from t c r e show ?thesis by simp
qed

theorem request_auth_token_first_entry_witness:
  "request_auth_token (client_of_tokens [''QVdTOnBhc3M='', ''b3RoZXI6c2VjcmV0''])
     = Inr ''QVdTOnBhc3M=''
   \<and> run_commands (snd (ecr_login (client_of_tokens [''QVdTOnBhc3M='', ''b3RoZXI6c2VjcmV0''])
         ''123456789012'' ''us-east-1'' engine_ok [])) =
       [[''docker'', ''login'', ''--username'', ''AWS'', ''--password'', ''pass'',
         ''123456789012.dkr.ecr.us-east-1.amazonaws.com'']]"
proof -
  let ?first = "\<lparr>authorizationToken = Some ''QVdTOnBhc3M=''\<rparr>"
  let ?others = "[\<lparr>authorizationToken = Some ''b3RoZXI6c2VjcmV0''\<rparr>]"
  let ?response = "\<lparr>authorizationData = Some (?first # ?others)\<rparr>"
  have d: "decode_token ''QVdTOnBhc3M='' = Inr (''AWS'', ''pass'')"
    by code_simp
  have a: "get_authorization_token (client_of_tokens [''QVdTOnBhc3M='', ''b3RoZXI6c2VjcmV0''])
             = Inr ?response"
    by (simp add: client_of_tokens_def)
  have b: "authorizationData ?response = Some (?first # ?others)"
    by simp
  have c: "authorizationToken ?first = Some ''QVdTOnBhc3M=''"
    by simp
  note th = request_auth_token_first_entry
              [OF a b c, of "''123456789012''" "''us-east-1''" engine_ok "[]"]
  from th [THEN conjunct1] th [THEN conjunct2, THEN conjunct2, THEN conjunct1]
  show ?thesis by (simp add: d)
qed

subsection \<open>Draining the push output\<close>

lemma readline_empty_iff: "fst (readline s) = [] \<longleftrightarrow> s = []"
  by (cases s) (auto split: prod.splits)

lemma emitted_lines_readline:
  "s \<noteq> [] \<Longrightarrow> emitted_lines s = fst (readline s) # emitted_lines (snd (readline s))"
proof (induction s)
  case Nil
  then show ?case by simp
next
  case (Cons c cs)
  show ?case
  proof (cases "cs = []")
    case True
    then show ?thesis by simp
  next
    case False
    with Cons.IH show ?thesis by (simp split: prod.splits)
  qed
qed

lemma readline_append: "readline s = (line, rest) \<Longrightarrow> line @ rest = s"
  by (induction s arbitrary: line rest) (auto split: if_splits prod.splits)

lemma read_log_lines_eq:
  "read_log_lines stream raised logs w =
     ((case raised of None \<Rightarrow> Inr (logs @ stream) | Some e \<Rightarrow> Inl e),
      w @ map LogCode (shown_logs logs (emitted_lines stream)))"
proof (induction stream raised logs w rule: read_log_lines.induct)
  case (1 stream raised logs w)
  show ?case
  proof (cases "stream = []")
    case True
    then show ?thesis
      by (simp add: read_log_lines.simps [of "[]"] stdout_readline_def split: option.splits)
  next
    case False
    obtain line rest where r: "readline stream = (line, rest)"
      by (cases "readline stream")
    with False have ne: "line \<noteq> []"
      using readline_empty_iff [of stream] by auto
    from r False have sr: "stdout_readline stream raised = Inr (line, rest)"
      by (simp add: stdout_readline_def)
    from "1.IH" [OF sr refl ne]
    have "read_log_lines rest raised (logs @ line) (w @ [LogCode (logs @ line)]) =
            ((case raised of None \<Rightarrow> Inr ((logs @ line) @ rest) | Some e \<Rightarrow> Inl e),
             (w @ [LogCode (logs @ line)])
               @ map LogCode (shown_logs (logs @ line) (emitted_lines rest)))" .
    moreover have "emitted_lines stream = line # emitted_lines rest"
      using emitted_lines_readline [OF False] r by simp
    moreover have "line @ rest = stream"
      using r by (rule readline_append)
    ultimately show ?thesis
      using sr ne by (simp add: read_log_lines.simps [of stream] split: option.splits)
  qed
qed

lemma concat_emitted_lines: "concat (emitted_lines s) = s"
  by (induction s) (auto split: list.splits)

lemma shown_logs_take:
  "shown_logs logs lines = map (\<lambda>k. logs @ concat (take k lines)) [1..<Suc (length lines)]"
proof (induction lines arbitrary: logs)
  case Nil
  then show ?case by simp
next
  case (Cons line lines)
  have "[1..<Suc (length (line # lines))] = 1 # map Suc [1..<Suc (length lines)]"
    by (metis length_Cons map_Suc_upt upt_conv_Cons zero_less_Suc One_nat_def Suc_less_eq)
  then show ?case using Cons.IH [of "logs @ line"] by (simp add: comp_def)
qed

lemma whole_lines_emitted:
  "list_all (\<lambda>line. line \<noteq> [] \<and> CHR 0x0A \<notin> set (butlast line)) (emitted_lines s)"
  by (induction s) (auto split: list.splits)

lemma ended_lines_emitted:
  "list_all (\<lambda>line. last line = CHR 0x0A) (butlast (emitted_lines s))"
proof (induction s)
  case Nil
  then show ?case by simp
next
  case (Cons c cs)
  have ne: "list_all (\<lambda>line. line \<noteq> []) (emitted_lines cs)"
    using whole_lines_emitted [of cs] by (simp add: list_all_iff)
  show ?case using Cons.IH ne by (auto split: list.splits)
qed

subsection \<open>The trace of a push, proved\<close>

lemma log_updates_LogCode: "log_updates (map LogCode xs) = xs"
  by (induction xs) simp_all

lemma run_commands_LogCode: "run_commands (map LogCode xs) = []"
  by (induction xs) simp_all

lemma popen_commands_LogCode: "popen_commands (map LogCode xs) = []"
  by (induction xs) simp_all

lemma push_trace_commands:
  "run_commands (push_trace l u t out) = [tag_command l u t]"
  "popen_commands (push_trace l u t out) = [push_command u t]"
  "log_updates (push_trace l u t out) = shown_logs [] (emitted_lines out)"
  by (simp_all add: push_trace_def run_commands_append popen_commands_append
        log_updates_append log_updates_LogCode run_commands_LogCode popen_commands_LogCode)

lemma tag_and_push_image_pushed:
  assumes "run_result eng (tag_command l u t) = Inr tagged"
    and "returncode tagged = 0"
    and "popen_result eng (push_command u t) = Inr process"
    and "p_read_error process = None"
  shows "tag_and_push_image eng l u t w =
           (Inr (p_returncode process = 0),
            w @ push_trace l u t (p_stdout process)
              @ [if p_returncode process = 0
                 then StSuccess ''Image pushed successfully to ECR!''
                 else StError ''Failed to push image to ECR.''])"
  using assms
  by (simp add: tag_and_push_image_def subprocess_run_check_def Let_def read_log_lines_eq
        push_trace_def tag_command_def push_command_def)

lemma tag_and_push_image_read_raises:
  assumes "run_result eng (tag_command l u t) = Inr tagged"
    and "returncode tagged = 0"
    and "popen_result eng (push_command u t) = Inr process"
    and "p_read_error process = Some e"
  shows "tag_and_push_image eng l u t w = (Inl e, w @ push_trace l u t (p_stdout process))"
  using assms
  by (simp add: tag_and_push_image_def subprocess_run_check_def Let_def read_log_lines_eq
        push_trace_def tag_command_def push_command_def)

subsection \<open>The examples evaluated\<close>

text \<open>
  The tokens of the examples: \<open>QVdTOnBhc3M=\<close> is the base64 of \<open>AWS:pass\<close> and
  \<open>dXNlcjpwYXNzOndpdGg6Y29sb25z\<close> that of \<open>user:pass:with:colons\<close>.
\<close>

lemma b64decode_aws_pass: "b64decode ''QVdTOnBhc3M='' = Inr ''AWS:pass''"
  by code_simp

lemma b64decode_colons: "b64decode ''dXNlcjpwYXNzOndpdGg6Y29sb25z'' = Inr ''user:pass:with:colons''"
  by code_simp

lemma decode_token_aws_pass: "decode_token ''QVdTOnBhc3M='' = Inr (''AWS'', ''pass'')"
  by code_simp

lemma strip_examples:
  "strip ''123456789012'' = ''123456789012''"
  "strip '' us-east-1 '' = ''us-east-1''"
  "strip ''my-app:latest'' = ''my-app:latest''"
  "strip ''latest'' = ''latest''"
  by code_simp+

subsection \<open>Decoding the credential\<close>

lemma length_split_acc: "length (split_acc sep cur s) = Suc (count_list s sep)"
  by (induction s arbitrary: cur) simp_all

lemma split_acc_no_sep: "sep \<notin> set s \<Longrightarrow> split_acc sep cur s = [cur @ s]"
  by (induction s arbitrary: cur) auto

lemma split_acc_first:
  "sep \<notin> set a \<Longrightarrow> split_acc sep cur (a @ sep # b) = (cur @ a) # split_acc sep [] b"
  by (induction a arbitrary: cur) auto

lemma unpack2_too_many:
  "3 \<le> length xs \<Longrightarrow> unpack2 xs = Inl (ValueError ''too many values to unpack (expected 2)'')"
  by (cases xs rule: unpack2.cases) simp_all

lemma split_colon_password:
  assumes "CHR '':'' \<in> set password"
  shows "3 \<le> length (split (username @ '':'' @ password) CHR '':'')"
proof -
  from assms have "count_list password CHR '':'' \<noteq> 0"
    by (simp add: count_list_0_iff)
  then show ?thesis
    by (simp add: split_def length_split_acc)
qed

text \<open>
  Where neither part holds a colon the two parts come back as they are.
\<close>

lemma decode_token_no_colon:
  assumes "b64decode token = Inr (username @ '':'' @ password)"
    and "utf8_valid (username @ '':'' @ password)"
    and "CHR '':'' \<notin> set username" and "CHR '':'' \<notin> set password"
  shows "decode_token token = Inr (username, password)"
  using assms
  by (simp add: decode_token_def decode_utf8_def split_def split_acc_first split_acc_no_sep)

text \<open>
  C1. The code splits the decoded token on every colon, not on the first one only.
  For a token that decodes to \<open>username:password\<close> with a colon in the password,
  the split has three pieces or more, the unpacking into two names raises
  \<open>ValueError\<close>, and \<open>ecr_login\<close> reports an error and returns \<open>False\<close> without
  running the engine's login.
\<close>

theorem ecr_login_colon_in_password:
  assumes "request_auth_token client = Inr token"
    and "b64decode token = Inr (username @ '':'' @ password)"
    and "utf8_valid (username @ '':'' @ password)"
    and "CHR '':'' \<in> set password"
  shows "decode_token token = Inl (ValueError ''too many values to unpack (expected 2)'')
         \<and> ecr_login client aws_account_id region eng w =
             (Inr False,
              w @ [StInfo ''Authenticating Docker with ECR...'',
                   StErrorF ''An error occurred during ECR login: ''
                     (ValueError ''too many values to unpack (expected 2)'') []])"
proof -
  have d: "decode_token token = Inl (ValueError ''too many values to unpack (expected 2)'')"
    using assms(2,3) unpack2_too_many [OF split_colon_password [OF assms(4), of username]]
    by (simp add: decode_token_def decode_utf8_def)
  then show ?thesis
    using assms(1) by (simp add: ecr_login_def ecr_login_command_def)
qed

theorem ecr_login_colon_in_password_witness:
  "decode_token ''dXNlcjpwYXNzOndpdGg6Y29sb25z''
     = Inl (ValueError ''too many values to unpack (expected 2)'')
   \<and> ecr_login (client_of_tokens [''dXNlcjpwYXNzOndpdGg6Y29sb25z''])
         ''123456789012'' ''us-east-1'' engine_ok [] =
       (Inr False,
        [StInfo ''Authenticating Docker with ECR...'',
         StErrorF ''An error occurred during ECR login: ''
           (ValueError ''too many values to unpack (expected 2)'') []])"
proof -
  have u: "utf8_valid ''user:pass:with:colons''"
    by (simp add: byte_in_def)
  have r: "request_auth_token (client_of_tokens [''dXNlcjpwYXNzOndpdGg6Y29sb25z''])
             = Inr ''dXNlcjpwYXNzOndpdGg6Y29sb25z''"
    by (simp add: request_auth_token_def client_of_tokens_def)
  show ?thesis
    using ecr_login_colon_in_password
            [of "client_of_tokens [''dXNlcjpwYXNzOndpdGg6Y29sb25z'']"
                "''dXNlcjpwYXNzOndpdGg6Y29sb25z''" "''user''" "''pass:with:colons''"
                "''123456789012''" "''us-east-1''" engine_ok "[]"]
          r u b64decode_colons
    by simp
qed

subsection \<open>A failed login\<close>

lemma ecr_login_aws_pass:
  "ecr_login_command (client_of_tokens (''QVdTOnBhc3M='' # others)) ''123456789012'' ''us-east-1''
     = Inr [''docker'', ''login'', ''--username'', ''AWS'', ''--password'', ''pass'',
            ''123456789012.dkr.ecr.us-east-1.amazonaws.com'']"
  by (simp add: ecr_login_command_def request_auth_token_def client_of_tokens_def
        decode_token_aws_pass)

text \<open>
  C3. When the form is filled in and the engine's login subcommand exits with a
  non-zero code, the handler shows \<open>Docker login failed.\<close> followed by the captured
  standard error as it is, and stops there: the trace ends with that text, so
  \<open>tag_and_push_image\<close> is not called and no further command is run.
\<close>

theorem login_failure_shows_stderr:
  assumes "selected_repo \<noteq> []" and "local_image \<noteq> []" and "new_image_tag \<noteq> []"
    and "strip aws_account_id \<noteq> []"
    and "ecr_login_command client (strip aws_account_id) (strip aws_region) = Inr command"
    and "run_result eng command = Inr result"
    and "returncode result \<noteq> 0"
  shows "ecr_login client (strip aws_account_id) (strip aws_region) eng w =
           (Inr False,
            w @ [StInfo ''Authenticating Docker with ECR...'',
                 SubprocessRun command,
                 StError ''Docker login failed.'',
                 StCode (stderr result)])
         \<and> push_to_ecr client eng aws_account_id aws_region selected_repo local_image
               new_image_tag w =
             (Inr (),
              w @ [StInfo ''Authenticating Docker with ECR...'',
                   SubprocessRun command,
                   StError ''Docker login failed.'',
                   StCode (stderr result)])"
proof -
  have l: "ecr_login client (strip aws_account_id) (strip aws_region) eng w =
             (Inr False,
              w @ [StInfo ''Authenticating Docker with ECR...'',
                   SubprocessRun command,
                   StError ''Docker login failed.'',
                   StCode (stderr result)])"
    using assms(5-7) by (simp add: ecr_login_def subprocess_run_check_def)
  then show ?thesis
    using assms(1-4) by (simp add: push_to_ecr_def Let_def)
qed

theorem login_failure_shows_stderr_witness:
  "push_to_ecr (client_of_tokens [''QVdTOnBhc3M='']) engine_login_fails
     ''123456789012'' '' us-east-1 '' ''my-app'' ''my-app:latest'' ''latest'' [] =
   (Inr (),
    [StInfo ''Authenticating Docker with ECR...'',
     SubprocessRun [''docker'', ''login'', ''--username'', ''AWS'', ''--password'', ''pass'',
                    ''123456789012.dkr.ecr.us-east-1.amazonaws.com''],
     StError ''Docker login failed.'',
     StCode ''no basic auth credentials''])"
  using login_failure_shows_stderr
          [of "''my-app''" "''my-app:latest''" "''latest''" "''123456789012''"
              "client_of_tokens [''QVdTOnBhc3M='']" "'' us-east-1 ''"
              "[''docker'', ''login'', ''--username'', ''AWS'', ''--password'', ''pass'',
                ''123456789012.dkr.ecr.us-east-1.amazonaws.com'']"
              engine_login_fails
              "\<lparr>returncode = 1, stdout = [], stderr = ''no basic auth credentials''\<rparr>"
              "[]"]
  by (simp add: strip_examples ecr_login_aws_pass engine_login_fails_def)

subsection \<open>The push target\<close>

lemma tag_and_push_image_commands:
  "run_commands (snd (tag_and_push_image eng l u t w)) = run_commands w @ [tag_command l u t]
   \<and> (popen_commands (snd (tag_and_push_image eng l u t w)) = popen_commands w
      \<or> popen_commands (snd (tag_and_push_image eng l u t w))
          = popen_commands w @ [push_command u t])"
  by (auto simp: tag_and_push_image_def subprocess_run_check_def Let_def read_log_lines_eq
        run_commands_append popen_commands_append run_commands_LogCode popen_commands_LogCode
        tag_command_def push_command_def
      split: sum.splits exn.splits prod.splits if_splits option.splits)

text \<open>
  C5. The handler builds the repository URI as
  \<open>{account_id}.dkr.ecr.{region}.amazonaws.com/{selected_repo}\<close>, and after a
  successful login the only command it runs is \<open>docker tag\<close> with that URI followed
  by \<open>:\<close> and the tag as its target; the only process it may start is \<open>docker push\<close>
  of the same target. The account id, the region, the local image and the tag are
  the form's inputs with surrounding whitespace removed.
\<close>

theorem push_target_uri:
  assumes "selected_repo \<noteq> []" and "local_image \<noteq> []" and "new_image_tag \<noteq> []"
    and "strip aws_account_id \<noteq> []"
    and "ecr_login client (strip aws_account_id) (strip aws_region) eng w = (Inr True, w1)"
  shows "repository_uri (strip aws_account_id) (strip aws_region) selected_repo =
           strip aws_account_id @ ''.dkr.ecr.'' @ strip aws_region @ ''.amazonaws.com/''
             @ selected_repo
         \<and> run_commands (snd (push_to_ecr client eng aws_account_id aws_region selected_repo
               local_image new_image_tag w)) =
             run_commands w1 @
               [[''docker'', ''tag'', strip local_image,
                 repository_uri (strip aws_account_id) (strip aws_region) selected_repo
                   @ '':'' @ strip new_image_tag]]
         \<and> (popen_commands (snd (push_to_ecr client eng aws_account_id aws_region selected_repo
                local_image new_image_tag w)) = popen_commands w1
            \<or> popen_commands (snd (push_to_ecr client eng aws_account_id aws_region selected_repo
                local_image new_image_tag w)) =
                popen_commands w1 @
                  [[''docker'', ''push'',
                    repository_uri (strip aws_account_id) (strip aws_region) selected_repo
                      @ '':'' @ strip new_image_tag]])"
proof -
  let ?call = "tag_and_push_image eng (strip local_image)
                 (repository_uri (strip aws_account_id) (strip aws_region) selected_repo)
                 (strip new_image_tag) w1"
  have s: "snd (push_to_ecr client eng aws_account_id aws_region selected_repo
                  local_image new_image_tag w) = snd ?call"
    using assms by (simp add: push_to_ecr_def Let_def split: prod.splits sum.splits)
  show ?thesis
    using tag_and_push_image_commands
            [of eng "strip local_image"
                "repository_uri (strip aws_account_id) (strip aws_region) selected_repo"
                "strip new_image_tag" w1]
    unfolding s by (simp add: tag_command_def push_command_def repository_uri_def)
qed

lemma ecr_login_ok_example:
  "ecr_login (client_of_tokens [''QVdTOnBhc3M='']) ''123456789012'' ''us-east-1'' engine_ok [] =
     (Inr True,
      [StInfo ''Authenticating Docker with ECR...'',
       SubprocessRun [''docker'', ''login'', ''--username'', ''AWS'', ''--password'', ''pass'',
                      ''123456789012.dkr.ecr.us-east-1.amazonaws.com''],
       StSuccess ''Docker login successful!''])"
  by (simp add: ecr_login_def ecr_login_aws_pass subprocess_run_check_def engine_ok_def)

theorem push_target_uri_witness:
  "repository_uri ''123456789012'' ''us-east-1'' ''my-app''
     = ''123456789012.dkr.ecr.us-east-1.amazonaws.com/my-app''
   \<and> run_commands (snd (push_to_ecr (client_of_tokens [''QVdTOnBhc3M='']) engine_ok
         ''123456789012'' '' us-east-1 '' ''my-app'' ''my-app:latest'' ''latest'' [])) =
       [[''docker'', ''login'', ''--username'', ''AWS'', ''--password'', ''pass'',
         ''123456789012.dkr.ecr.us-east-1.amazonaws.com''],
        [''docker'', ''tag'', ''my-app:latest'',
         ''123456789012.dkr.ecr.us-east-1.amazonaws.com/my-app:latest'']]"
  using push_target_uri
          [of "''my-app''" "''my-app:latest''" "''latest''" "''123456789012''"
              "client_of_tokens [''QVdTOnBhc3M='']" "'' us-east-1 ''" engine_ok "[]"
              "[StInfo ''Authenticating Docker with ECR...'',
                SubprocessRun [''docker'', ''login'', ''--username'', ''AWS'', ''--password'',
                               ''pass'', ''123456789012.dkr.ecr.us-east-1.amazonaws.com''],
                StSuccess ''Docker login successful!'']"]
  by (simp add: strip_examples ecr_login_ok_example)

subsection \<open>The outcome of a push\<close>

text \<open>
  C6, as the code has it. When the output of the push process is read to its end
  without an error and the process exits with a non-zero code,
  \<open>tag_and_push_image\<close> shows every line, then \<open>Failed to push image to ECR.\<close>, and
  returns \<open>False\<close>. Neither the result nor the trace holds the exit code: the
  function returns a boolean, as its docstring says.
\<close>

theorem push_failure_returns_false:
  assumes "run_result eng (tag_command l u t) = Inr tagged"
    and "returncode tagged = 0"
    and "popen_result eng (push_command u t) = Inr process"
    and "p_read_error process = None"
    and "p_returncode process \<noteq> 0"
  shows "tag_and_push_image eng l u t w =
           (Inr False,
            w @ push_trace l u t (p_stdout process) @ [StError ''Failed to push image to ECR.''])"
  using tag_and_push_image_pushed [OF assms(1-4), of w] assms(5) by simp

theorem push_failure_returns_false_witness:
  "tag_and_push_image (engine_push_exits 1) ''my-app:latest''
     ''123456789012.dkr.ecr.us-east-1.amazonaws.com/my-app'' ''latest'' [] =
   (Inr False,
    push_trace ''my-app:latest'' ''123456789012.dkr.ecr.us-east-1.amazonaws.com/my-app''
      ''latest'' ''denied: requested access to the resource is denied\<newline>''
    @ [StError ''Failed to push image to ECR.''])"
  using push_failure_returns_false
          [of "engine_push_exits 1" "''my-app:latest''"
              "''123456789012.dkr.ecr.us-east-1.amazonaws.com/my-app''" "''latest''"
              "\<lparr>returncode = 0, stdout = [], stderr = []\<rparr>"
              "\<lparr>p_stdout = ''denied: requested access to the resource is denied\<newline>'',
                p_read_error = None, p_returncode = 1\<rparr>"
              "[]"]
  by (simp add: engine_push_exits_def)

lemma push_exits_nonzero:
  assumes "rc \<noteq> 0"
  shows "tag_and_push_image (engine_push_exits rc) ''my-app:latest''
           ''123456789012.dkr.ecr.us-east-1.amazonaws.com/my-app'' ''latest'' [] =
         (Inr False,
          push_trace ''my-app:latest''
            ''123456789012.dkr.ecr.us-east-1.amazonaws.com/my-app'' ''latest''
            ''denied: requested access to the resource is denied\<newline>''
          @ [StError ''Failed to push image to ECR.''])"
  using assms
    tag_and_push_image_pushed
      [of "engine_push_exits rc" "''my-app:latest''"
          "''123456789012.dkr.ecr.us-east-1.amazonaws.com/my-app''" "''latest''"
          "\<lparr>returncode = 0, stdout = [], stderr = []\<rparr>"
          "\<lparr>p_stdout = ''denied: requested access to the resource is denied\<newline>'',
            p_read_error = None, p_returncode = rc\<rparr>"
          "[]"]
  by (simp add: engine_push_exits_def)

text \<open>
  The claim as stated fails: a push that exits with 1 and one that exits with 2
  give the same result and the same trace, so no caller can tell the exit codes
  apart.
\<close>

theorem push_exit_code_not_recoverable:
  "tag_and_push_image (engine_push_exits 1) ''my-app:latest''
     ''123456789012.dkr.ecr.us-east-1.amazonaws.com/my-app'' ''latest'' [] =
   tag_and_push_image (engine_push_exits 2) ''my-app:latest''
     ''123456789012.dkr.ecr.us-east-1.amazonaws.com/my-app'' ''latest'' []
   \<and> fst (tag_and_push_image (engine_push_exits 1) ''my-app:latest''
            ''123456789012.dkr.ecr.us-east-1.amazonaws.com/my-app'' ''latest'' []) = Inr False"
  using push_exits_nonzero [of 1] push_exits_nonzero [of 2] by simp

text \<open>
  Hence no function of the result and the trace gives the exit code back.
\<close>

lemma push_exit_code_no_recover:
  "\<not> (\<exists>recover. \<forall>rc. rc \<noteq> 0 \<longrightarrow>
        recover (tag_and_push_image (engine_push_exits rc) ''my-app:latest''
          ''123456789012.dkr.ecr.us-east-1.amazonaws.com/my-app'' ''latest'' []) = rc)"
proof
  assume "\<exists>recover. \<forall>rc. rc \<noteq> 0 \<longrightarrow>
        recover (tag_and_push_image (engine_push_exits rc) ''my-app:latest''
          ''123456789012.dkr.ecr.us-east-1.amazonaws.com/my-app'' ''latest'' []) = rc"
  then obtain recover :: "(exn + bool) \<times> world \<Rightarrow> int" where
    r: "\<And>rc. rc \<noteq> 0 \<Longrightarrow>
        recover (tag_and_push_image (engine_push_exits rc) ''my-app:latest''
          ''123456789012.dkr.ecr.us-east-1.amazonaws.com/my-app'' ''latest'' []) = rc"
    by blast
  from r [of 1] r [of 2] show False
    by (simp add: push_exits_nonzero)
qed

subsection \<open>The log lines\<close>

lemma tag_and_push_image_started:
  assumes "run_result eng (tag_command l u t) = Inr tagged"
    and "returncode tagged = 0"
    and "popen_result eng (push_command u t) = Inr process"
  shows "log_updates (snd (tag_and_push_image eng l u t w)) =
           log_updates w @ shown_logs [] (emitted_lines (p_stdout process))"
    and "fst (tag_and_push_image eng l u t w) =
           (case p_read_error process of
              None \<Rightarrow> Inr (p_returncode process = 0)
            | Some e \<Rightarrow> Inl e)"
proof -
  show "log_updates (snd (tag_and_push_image eng l u t w)) =
          log_updates w @ shown_logs [] (emitted_lines (p_stdout process))"
  proof (cases "p_read_error process")
    case None
    then show ?thesis
      using tag_and_push_image_pushed [OF assms, of w]
      by (simp add: log_updates_append push_trace_commands)
  next
    case (Some e)
    then show ?thesis
      using tag_and_push_image_read_raises [OF assms, of e w]
      by (simp add: log_updates_append push_trace_commands)
  qed
  show "fst (tag_and_push_image eng l u t w) =
          (case p_read_error process of
             None \<Rightarrow> Inr (p_returncode process = 0)
           | Some e \<Rightarrow> Inl e)"
  proof (cases "p_read_error process")
    case None
    then show ?thesis
      using tag_and_push_image_pushed [OF assms, of w] by simp
  next
    case (Some e)
    then show ?thesis
      using tag_and_push_image_read_raises [OF assms, of e w] by simp
  qed
qed

text \<open>
  C7. When the tag step succeeds and the push process starts, the loop shows the
  lines that \<open>process.stdout\<close> delivers, in the order delivered: the \<open>k\<close>-th update
  of the log display shows the first \<open>k\<close> lines. The lines are the delivered text
  (the output after decoding and newline translation) split on line boundaries
  only: put together they are that text, none is empty, none holds a newline before
  its last character, and every line but the last ends with one. The loop is total,
  so the sequence is finite: one update per line. When the stream ends, the
  function goes on to the exit code. When a \<open>readline()\<close> raises, as it does on
  output that is not UTF-8, the lines after that point are never shown and the
  exception leaves \<open>tag_and_push_image\<close>: lines 131 to 139 are outside any \<open>try\<close>.
\<close>

theorem push_log_lines_until_read_error:
  assumes "run_result eng (tag_command l u t) = Inr tagged"
    and "returncode tagged = 0"
    and "popen_result eng (push_command u t) = Inr process"
  shows "log_updates (snd (tag_and_push_image eng l u t w)) =
           log_updates w @
             map (\<lambda>k. concat (take k (emitted_lines (p_stdout process))))
               [1..<Suc (length (emitted_lines (p_stdout process)))]
         \<and> concat (emitted_lines (p_stdout process)) = p_stdout process
         \<and> list_all (\<lambda>line. line \<noteq> [] \<and> CHR 0x0A \<notin> set (butlast line))
               (emitted_lines (p_stdout process))
         \<and> list_all (\<lambda>line. last line = CHR 0x0A) (butlast (emitted_lines (p_stdout process)))
         \<and> fst (tag_and_push_image eng l u t w) =
             (case p_read_error process of
                None \<Rightarrow> Inr (p_returncode process = 0)
              | Some e \<Rightarrow> Inl e)"
  using tag_and_push_image_started [OF assms, of w]
  by (simp add: shown_logs_take concat_emitted_lines whole_lines_emitted ended_lines_emitted)

theorem push_log_lines_until_read_error_witness:
  "log_updates (snd (tag_and_push_image engine_push_undecodable ''my-app:latest''
     ''123456789012.dkr.ecr.us-east-1.amazonaws.com/my-app'' ''latest'' [])) = [''ok\<newline>'']
   \<and> fst (tag_and_push_image engine_push_undecodable ''my-app:latest''
     ''123456789012.dkr.ecr.us-east-1.amazonaws.com/my-app'' ''latest'' [])
       = Inl UnicodeDecodeError"
  using push_log_lines_until_read_error
          [of engine_push_undecodable "''my-app:latest''"
              "''123456789012.dkr.ecr.us-east-1.amazonaws.com/my-app''" "''latest''"
              "\<lparr>returncode = 0, stdout = [], stderr = []\<rparr>"
              "\<lparr>p_stdout = ''ok\<newline>'', p_read_error = Some UnicodeDecodeError,
                p_returncode = 1\<rparr>"
              "[]"]
  by (simp add: engine_push_undecodable_def tag_command_def push_command_def)

text \<open>
  On output that is read to its end, every line is shown and the function returns.
\<close>

lemma push_log_lines_in_order:
  assumes "run_result eng (tag_command l u t) = Inr tagged"
    and "returncode tagged = 0"
    and "popen_result eng (push_command u t) = Inr process"
    and "p_read_error process = None"
  shows "log_updates (snd (tag_and_push_image eng l u t w)) =
           log_updates w @
             map (\<lambda>k. concat (take k (emitted_lines (p_stdout process))))
               [1..<Suc (length (emitted_lines (p_stdout process)))]
         \<and> fst (tag_and_push_image eng l u t w) = Inr (p_returncode process = 0)"
  using tag_and_push_image_started [OF assms(1-3), of w] assms(4)
  by (simp add: shown_logs_take)

lemma push_log_lines_example:
  "log_updates (snd (tag_and_push_image engine_ok ''my-app:latest''
     ''123456789012.dkr.ecr.us-east-1.amazonaws.com/my-app'' ''latest'' [])) =
   [''The push refers to repository\<newline>'',
    ''The push refers to repository\<newline>latest: digest: sha256:0f3a size: 1570\<newline>'']"
  using push_log_lines_in_order
          [of engine_ok "''my-app:latest''"
              "''123456789012.dkr.ecr.us-east-1.amazonaws.com/my-app''" "''latest''"
              "\<lparr>returncode = 0, stdout = ''ok\<newline>'', stderr = []\<rparr>"
              "\<lparr>p_stdout = ''The push refers to repository\<newline>latest: digest: sha256:0f3a size: 1570\<newline>'',
                p_read_error = None, p_returncode = 0\<rparr>"
              "[]"]
  by (simp add: engine_ok_def tag_command_def push_command_def)

subsection \<open>Exceptions that leave the helpers\<close>

lemma get_ecr_client_returns: "\<exists>v. fst (get_ecr_client boto3_client region_name w) = Inr v"
  by (simp add: get_ecr_client_def split: sum.splits exn.splits)

lemma get_ecr_repositories_returns: "\<exists>v. fst (get_ecr_repositories client w) = Inr v"
  by (simp add: get_ecr_repositories_def split: sum.splits exn.splits)

lemma ecr_login_except_returns: "fst (ecr_login_except e w) = Inr False"
  by (cases e) simp_all

lemma ecr_login_returns: "\<exists>b. fst (ecr_login client aws_account_id region eng w) = Inr b"
  by (auto simp: ecr_login_def ecr_login_except_returns split: sum.splits prod.splits)

lemma tag_and_push_image_popen_raises:
  assumes "run_result eng (tag_command l u t) = Inr tagged"
    and "returncode tagged = 0"
    and "popen_result eng (push_command u t) = Inl e"
  shows "fst (tag_and_push_image eng l u t w) = Inl e"
  using assms
  by (simp add: tag_and_push_image_def subprocess_run_check_def Let_def tag_command_def
        push_command_def)

text \<open>
  C10. \<open>get_ecr_client\<close>, \<open>get_ecr_repositories\<close> and \<open>ecr_login\<close> end in
  \<open>except Exception\<close> and always return (the three lemmas above).
  \<open>tag_and_push_image\<close> does not: its only handler is for \<open>CalledProcessError\<close>.
  When \<open>subprocess.run\<close> cannot start the engine and raises \<open>OSError\<close>, the
  exception leaves the function, after the first message and the attempt to run.
  An exception raised when the push is started or while its output is read leaves
  the function in the same way.
\<close>

theorem tag_and_push_image_oserror_escapes:
  assumes "run_result eng (tag_command l u t) = Inl (OSError m)"
  shows "tag_and_push_image eng l u t w =
           (Inl (OSError m),
            w @ [StInfo (''Tagging local image '' @ apostrophe @ l @ apostrophe
                         @ '' as '' @ apostrophe @ (u @ '':'' @ t) @ apostrophe @ ''...''),
                 SubprocessRun (tag_command l u t)])"
  using assms
  by (simp add: tag_and_push_image_def subprocess_run_check_def Let_def tag_command_def)

theorem tag_and_push_image_oserror_escapes_witness:
  "fst (tag_and_push_image engine_no_docker ''my-app:latest''
          ''123456789012.dkr.ecr.us-east-1.amazonaws.com/my-app'' ''latest'' [])
     = Inl (OSError ''[Errno 2] No such file or directory: docker'')"
  using tag_and_push_image_oserror_escapes
          [of engine_no_docker "''my-app:latest''"
              "''123456789012.dkr.ecr.us-east-1.amazonaws.com/my-app''" "''latest''"
              "''[Errno 2] No such file or directory: docker''" "[]"]
  by (simp add: engine_no_docker_def)

end
